theory Spec2Isabelle
  imports Main
begin

section \<open>Python values shared by the modules\<close>

text \<open>
  Exceptions are values. Only the exception classes that the modelled functions raise
  or catch appear; \<open>HTTPException\<close> carries its status code and its detail, and
  \<open>SecurityException\<close> (core/security.py) its message.
\<close>

datatype exn =
    NameError string
  | TypeError
  | ValueError
  | JWTError
  | SecurityException string
  | HTTPException int string

text \<open>
  \<open>str.split(sep)\<close> for a one-character separator: the pieces between the
  separators, so the result is never empty and \<open>''''.split(':') = ['''']\<close>.
\<close>

fun split_on :: "char \<Rightarrow> string \<Rightarrow> string list" where
  "split_on c [] = [[]]"
| "split_on c (x # xs) =
     (if x = c then [] # split_on c xs
      else (case split_on c xs of
              [] \<Rightarrow> [[x]]
            | p # ps \<Rightarrow> (x # p) # ps))"

lemma split_on_no_sep: "c \<notin> set a \<Longrightarrow> split_on c a = [a]"
  by (induction a) auto

lemma split_on_first_sep: "c \<notin> set a \<Longrightarrow> split_on c (a @ c # b) = a # split_on c b"
  by (induction a) auto

lemma length_split_on: "length (split_on c s) = Suc (count_list s c)"
  by (induction s) (auto split: list.splits)

lemma split_on_two:
  "split_on c s = [a, b] \<longleftrightarrow> (s = a @ c # b \<and> c \<notin> set a \<and> c \<notin> set b)"
proof
  assume two: "split_on c s = [a, b]"
  then have cnt: "count_list s c = 1"
    using length_split_on [of c s] by simp
  then have "c \<in> set s"
    by (metis count_list_0_iff zero_neq_one)
  then obtain ys zs where s: "s = ys @ c # zs" and ys: "c \<notin> set ys"
    by (meson split_list_first)
  have "count_list ys c = 0"
    using ys by (simp add: count_list_0_iff)
  with cnt s have "count_list zs c = 0"
    by simp
  then have zs: "c \<notin> set zs"
    by (simp add: count_list_0_iff)
  have "split_on c s = [ys, zs]"
    using s ys zs by (simp add: split_on_first_sep split_on_no_sep)
  with two have "a = ys" "b = zs"
    by simp_all
  with s ys zs show "s = a @ c # b \<and> c \<notin> set a \<and> c \<notin> set b"
    by simp
next
  assume "s = a @ c # b \<and> c \<notin> set a \<and> c \<notin> set b"
  then show "split_on c s = [a, b]"
    by (simp add: split_on_first_sep split_on_no_sep)
qed

section \<open>middleware/security.py: the RBAC authorizer\<close>

text \<open>
  \<open>RBACMiddleware.__init__\<close> binds \<open>self.role_permissions\<close> to a dict literal.
  The dict is an association list read with \<open>map_of\<close>; the functions below take it as
  an argument, as the methods take \<open>self\<close>.
\<close>

definition role_permissions :: "(string \<times> string list) list" where
  "role_permissions =
    [(''super_admin'', [''*'']),
     (''admin'',
        [''users:read'', ''users:write'', ''users:delete'',
         ''drivers:read'', ''drivers:write'', ''drivers:approve'',
         ''trips:read'', ''trips:write'', ''trips:cancel'',
         ''reports:read'', ''audit:read'']),
     (''driver'',
        [''profile:read'', ''profile:write'',
         ''trips:read'', ''trips:accept'', ''trips:complete'',
         ''earnings:read'']),
     (''passenger'',
        [''profile:read'', ''profile:write'',
         ''trips:create'', ''trips:read'', ''trips:cancel'',
         ''payments:read'', ''payments:write'']),
     (''support'',
        [''users:read'', ''trips:read'', ''trips:write'',
         ''support_tickets:read'', ''support_tickets:write'']),
     (''moderator'',
        [''users:read'', ''drivers:read'', ''trips:read'',
         ''reports:read'', ''content:moderate''])]"

text \<open>\<open>self.role_permissions.get(user_role, [])\<close>\<close>

definition role_perms :: "(string \<times> string list) list \<Rightarrow> string \<Rightarrow> string list" where
  "role_perms rp user_role = (case map_of rp user_role of None \<Rightarrow> [] | Some ps \<Rightarrow> ps)"

text \<open>
  \<open>RBACMiddleware._has_permission\<close>: the super-admin star, the exact permission, then
  the resource wildcard, which is tried only when splitting the required permission at
  \<open>:\<close> gives exactly two parts.
\<close>

definition has_permission :: "(string \<times> string list) list \<Rightarrow> string \<Rightarrow> string \<Rightarrow> bool" where
  "has_permission rp user_role required_permission =
    (let perms = role_perms rp user_role in
     if ''*'' \<in> set perms then True
     else if required_permission \<in> set perms then True
     else (case split_on CHR '':'' required_permission of
             [resource, action] \<Rightarrow> (resource @ '':*'') \<in> set perms
           | _ \<Rightarrow> False))"

text \<open>
  The permission check of \<open>RBACMiddleware.dispatch\<close> (lines 463 to 475).
  \<open>required_permission\<close> is the result of \<open>_get_required_permission\<close>, \<open>None\<close> for
  an endpoint with no entry; the test \<open>required_permission and not ...\<close> also lets an
  empty string through.
\<close>

definition check_permissions ::
    "(string \<times> string list) list \<Rightarrow> string \<Rightarrow> string option \<Rightarrow> exn + unit" where
  "check_permissions rp user_role required_permission =
    (case required_permission of
       None \<Rightarrow> Inr ()
     | Some p \<Rightarrow>
         if p \<noteq> [] \<and> \<not> has_permission rp user_role p
         then Inl (HTTPException 403 ''Insufficient permissions'')
         else Inr ())"

lemma has_permission_iff:
  "has_permission rp r p \<longleftrightarrow>
     (''*'' \<in> set (role_perms rp r) \<or> p \<in> set (role_perms rp r) \<or>
      (\<exists>resource action.
          p = resource @ '':'' @ action \<and> CHR '':'' \<notin> set resource \<and>
          CHR '':'' \<notin> set action \<and> resource @ '':*'' \<in> set (role_perms rp r)))"
proof -
  have wild:
    "(case split_on CHR '':'' p of
        [resource, action] \<Rightarrow> (resource @ '':*'') \<in> set (role_perms rp r)
      | _ \<Rightarrow> False) \<longleftrightarrow>
     (\<exists>resource action.
          p = resource @ '':'' @ action \<and> CHR '':'' \<notin> set resource \<and>
          CHR '':'' \<notin> set action \<and> resource @ '':*'' \<in> set (role_perms rp r))"
    (is "?L \<longleftrightarrow> ?R")
  proof
    assume ?L
    then obtain a b where ab: "split_on CHR '':'' p = [a, b]"
      and w: "a @ '':*'' \<in> set (role_perms rp r)"
      by (auto split: list.splits)
    from ab have "p = a @ '':'' @ b \<and> CHR '':'' \<notin> set a \<and> CHR '':'' \<notin> set b"
      by (simp add: split_on_two)
    with w show ?R by blast
  next
    assume ?R
    then obtain a b where p: "p = a @ CHR '':'' # b" "CHR '':'' \<notin> set a" "CHR '':'' \<notin> set b"
      and w: "a @ '':*'' \<in> set (role_perms rp r)"
      by auto
    from p have "split_on CHR '':'' p = [a, b]"
      by (simp add: split_on_two)
    with w show ?L by simp
  qed
  show ?thesis
    unfolding has_permission_def Let_def using wild by auto
qed

text \<open>
  C7. A role passes the permission check exactly when no permission is required (none,
  or an empty one), or its permission list holds \<open>*\<close>, or it holds the required
  permission itself, or the required permission is \<open>resource:action\<close> (one colon) and
  the list holds \<open>resource:*\<close>. A role that is not a key of the mapping has the empty
  list, so it passes only when nothing is required. A role that holds \<open>users:*\<close> has
  \<open>users:read\<close>, \<open>users:write\<close> and \<open>users:delete\<close>; one that holds nothing else
  does not have \<open>trips:read\<close>.
\<close>

theorem rbac_authorization:
  "(check_permissions rp r req = Inr () \<longleftrightarrow>
      (req = None \<or> req = Some [] \<or>
       (\<exists>p. req = Some p \<and>
          (''*'' \<in> set (role_perms rp r) \<or> p \<in> set (role_perms rp r) \<or>
           (\<exists>resource action.
              p = resource @ '':'' @ action \<and> CHR '':'' \<notin> set resource \<and>
              CHR '':'' \<notin> set action \<and> resource @ '':*'' \<in> set (role_perms rp r))))))
   \<and> (map_of rp r = None \<longrightarrow> role_perms rp r = [])
   \<and> (''users:*'' \<in> set (role_perms rp r) \<longrightarrow>
        has_permission rp r ''users:read'' \<and> has_permission rp r ''users:write'' \<and>
        has_permission rp r ''users:delete'')
   \<and> (role_perms rp r = [''users:*''] \<longrightarrow> \<not> has_permission rp r ''trips:read'')"
proof -
  have main: "check_permissions rp r req = Inr () \<longleftrightarrow>
      (req = None \<or> req = Some [] \<or>
       (\<exists>p. req = Some p \<and>
          (''*'' \<in> set (role_perms rp r) \<or> p \<in> set (role_perms rp r) \<or>
           (\<exists>resource action.
              p = resource @ '':'' @ action \<and> CHR '':'' \<notin> set resource \<and>
              CHR '':'' \<notin> set action \<and> resource @ '':*'' \<in> set (role_perms rp r)))))"
  proof (cases req)
    case None
    then show ?thesis by (simp add: check_permissions_def)
  next
    case (Some p)
    then show ?thesis
      using has_permission_iff [of rp r p] by (auto simp: check_permissions_def)
  qed
  have absent: "map_of rp r = None \<longrightarrow> role_perms rp r = []"
    by (simp add: role_perms_def)
  have users: "has_permission rp r (''users'' @ '':'' @ action)"
    if "''users:*'' \<in> set (role_perms rp r)" and "CHR '':'' \<notin> set action" for action
  proof -
    have "''users'' @ '':'' @ action = ''users'' @ '':'' @ action \<and>
          CHR '':'' \<notin> set ''users'' \<and> CHR '':'' \<notin> set action \<and>
          ''users'' @ '':*'' \<in> set (role_perms rp r)"
      using that by simp
    then show ?thesis
      unfolding has_permission_iff by blast
  qed
  have wild: "''users:*'' \<in> set (role_perms rp r) \<longrightarrow>
        has_permission rp r ''users:read'' \<and> has_permission rp r ''users:write'' \<and>
        has_permission rp r ''users:delete''"
    using users [of "''read''"] users [of "''write''"] users [of "''delete''"] by simp
  have other: "role_perms rp r = [''users:*''] \<longrightarrow> \<not> has_permission rp r ''trips:read''"
    by (simp add: has_permission_def)
  from main absent wild other show ?thesis
    by blast
qed

theorem rbac_authorization_witness:
  "check_permissions [(''clerk'', [''users:*''])] ''clerk'' (Some ''users:delete'') = Inr ()
   \<and> check_permissions [(''clerk'', [''users:*''])] ''clerk'' (Some ''trips:read'')
       = Inl (HTTPException 403 ''Insufficient permissions'')
   \<and> check_permissions [(''clerk'', [''users:*''])] ''nobody'' (Some ''users:read'')
       = Inl (HTTPException 403 ''Insufficient permissions'')
   \<and> check_permissions role_permissions ''super_admin'' (Some ''trips:read'') = Inr ()
   \<and> check_permissions role_permissions ''driver'' (Some ''users:read'')
       = Inl (HTTPException 403 ''Insufficient permissions'')"
  using rbac_authorization [of "[(''clerk'', [''users:*''])]" "''clerk''" "Some ''users:delete''"]
  by (simp add: check_permissions_def has_permission_def role_perms_def role_permissions_def)


section \<open>Python's \<open>str(int)\<close> and \<open>int(str)\<close>\<close>



























section \<open>core/security.py: HMAC signatures\<close>


















section \<open>Time\<close>

text \<open>
  A \<open>datetime\<close> is the number of microseconds since the epoch, which is the resolution
  of Python's \<open>datetime\<close>; \<open>timedelta\<close>s are differences of such numbers. One call of
  an endpoint reads the clock several times within a few instructions; the model gives
  the call one reading, \<open>now\<close>. A JWT carries its dates in whole seconds
  (\<open>numeric_date\<close>, the library's \<open>timegm(d.utctimetuple())\<close>).
\<close>

type_synonym datetime = int

definition timedelta_minutes :: "int \<Rightarrow> int" where
  "timedelta_minutes n = n * 60000000"

definition timedelta_days :: "int \<Rightarrow> int" where
  "timedelta_days n = n * 86400000000"

definition numeric_date :: "datetime \<Rightarrow> int" where
  "numeric_date d = d div 1000000"

section \<open>core/security.py: SecurityConfig and the JWT service\<close>

text \<open>The constants of \<open>SecurityConfig\<close> that the modelled functions read.\<close>

definition ACCESS_TOKEN_EXPIRE_MINUTES :: int where "ACCESS_TOKEN_EXPIRE_MINUTES = 15"
definition REFRESH_TOKEN_EXPIRE_DAYS :: int where "REFRESH_TOKEN_EXPIRE_DAYS = 30"
definition MAX_LOGIN_ATTEMPTS :: int where "MAX_LOGIN_ATTEMPTS = 5"
definition ACCOUNT_LOCK_DURATION_MINUTES :: int where "ACCOUNT_LOCK_DURATION_MINUTES = 30"
definition SESSION_TIMEOUT_MINUTES :: int where "SESSION_TIMEOUT_MINUTES = 120"
definition MAX_CONCURRENT_SESSIONS :: nat where "MAX_CONCURRENT_SESSIONS = 3"

text \<open>
  The claim set of a token, a Python dict read with \<open>payload.get\<close>: every claim may be
  absent. Only the claims this repository writes or reads are fields.

  Tokens are symbolic: \<open>Jwt k c\<close> is the compact serialisation of the claim set \<open>c\<close>
  with an HS256 signature made with the key \<open>k\<close>, and \<open>NotJwt s\<close> is any other string.
  So a signature verifies against a key exactly when the token was signed with it.
\<close>

record claims =
  c_sub :: "string option"
  c_role :: "string option"
  c_session_id :: "string option"
  c_email :: "string option"
  c_family_id :: "string option"
  c_exp :: "int option"
  c_iat :: "int option"
  c_nbf :: "int option"
  c_iss :: "string option"
  c_aud :: "string option"
  c_jti :: "string option"
  c_token_type :: "string option"

datatype token = Jwt string claims | NotJwt string

text \<open>
  \<open>jwt.decode(token, key, algorithms, audience, issuer)\<close> of the library python-jose,
  which is not part of the repository: it checks the signature and then, with its default
  options, \<open>nbf\<close> and \<open>exp\<close> against the clock in whole seconds (each only when
  present), \<open>aud\<close> against the given audience (only when present) and \<open>iss\<close> against
  the given issuer. Every failure is a \<open>JWTError\<close> (or a subclass of it).
\<close>

definition jwt_decode :: "string \<Rightarrow> datetime \<Rightarrow> string \<Rightarrow> string \<Rightarrow> token \<Rightarrow> exn + claims" where
  "jwt_decode key now audience issuer tok =
    (case tok of
       NotJwt s \<Rightarrow> Inl JWTError
     | Jwt k c \<Rightarrow>
         if k \<noteq> key then Inl JWTError
         else if (case c_nbf c of None \<Rightarrow> False | Some n \<Rightarrow> n > numeric_date now)
           then Inl JWTError
         else if (case c_exp c of None \<Rightarrow> False | Some e \<Rightarrow> e < numeric_date now)
           then Inl JWTError
         else if (case c_aud c of None \<Rightarrow> False | Some a \<Rightarrow> a \<noteq> audience)
           then Inl JWTError
         else if c_iss c \<noteq> Some issuer then Inl JWTError
         else Inr c)"

text \<open>\<open>payload.get("exp", 0)\<close>\<close>

definition get_or_0 :: "int option \<Rightarrow> int" where
  "get_or_0 v = (case v of None \<Rightarrow> 0 | Some n \<Rightarrow> n)"

text \<open>
  \<open>JWTService.verify_token\<close>. \<open>verify_token_body\<close> is the \<open>try\<close> block;
  \<open>current_time\<close> there is a float of seconds, so the comparisons are made in
  microseconds. The handlers follow: a \<open>JWTError\<close> becomes
  \<open>SecurityException("Invalid token")\<close>, and every other exception, the
  \<open>SecurityException\<close>s raised in the block among them, becomes
  \<open>SecurityException("Token verification failed")\<close>.
\<close>

definition verify_token_body :: "string \<Rightarrow> datetime \<Rightarrow> token \<Rightarrow> string \<Rightarrow> exn + claims" where
  "verify_token_body secret_key now tok token_type =
    (case jwt_decode secret_key now ''tumataxi-app'' ''makko-intelligence-auth'' tok of
       Inl e \<Rightarrow> Inl e
     | Inr payload \<Rightarrow>
         if c_token_type payload \<noteq> Some token_type
           then Inl (SecurityException (''Invalid token type. Expected '' @ token_type))
         else if get_or_0 (c_exp payload) * 1000000 < now
           then Inl (SecurityException ''Token has expired'')
         else if get_or_0 (c_iat payload) * 1000000 > now + 60 * 1000000
           then Inl (SecurityException ''Token issued in the future'')
         else Inr payload)"

definition verify_token :: "string \<Rightarrow> datetime \<Rightarrow> token \<Rightarrow> string \<Rightarrow> exn + claims" where
  "verify_token secret_key now tok token_type =
    (case verify_token_body secret_key now tok token_type of
       Inl JWTError \<Rightarrow> Inl (SecurityException ''Invalid token'')
     | Inl e \<Rightarrow> Inl (SecurityException ''Token verification failed'')
     | Inr payload \<Rightarrow> Inr payload)"

text \<open>\<open>JWTService.decode_token_unsafe\<close>: the claims, the signature unchecked.\<close>

definition decode_token_unsafe :: "token \<Rightarrow> claims option" where
  "decode_token_unsafe tok = (case tok of Jwt k c \<Rightarrow> Some c | NotJwt s \<Rightarrow> None)"

text \<open>
  The conditions under which a token is refused: the four that the specification lists
  (signature, token type, expiry, issue date) and the three that \<open>jwt.decode\<close> adds.
\<close>

definition signature_verifies :: "string \<Rightarrow> token \<Rightarrow> bool" where
  "signature_verifies secret_key tok = (case tok of Jwt k c \<Rightarrow> k = secret_key | NotJwt s \<Rightarrow> False)"

definition expired :: "datetime \<Rightarrow> claims \<Rightarrow> bool" where
  "expired now c = (get_or_0 (c_exp c) * 1000000 < now)"

definition issued_in_future :: "datetime \<Rightarrow> claims \<Rightarrow> bool" where
  "issued_in_future now c = (get_or_0 (c_iat c) * 1000000 > now + 60 * 1000000)"

definition not_yet_valid :: "datetime \<Rightarrow> claims \<Rightarrow> bool" where
  "not_yet_valid now c = (case c_nbf c of None \<Rightarrow> False | Some n \<Rightarrow> n > numeric_date now)"

definition audience_mismatch :: "claims \<Rightarrow> bool" where
  "audience_mismatch c = (case c_aud c of None \<Rightarrow> False | Some a \<Rightarrow> a \<noteq> ''tumataxi-app'')"

definition issuer_mismatch :: "claims \<Rightarrow> bool" where
  "issuer_mismatch c = (c_iss c \<noteq> Some ''makko-intelligence-auth'')"

lemma jose_expiry_subsumed:
  "c_exp c = Some e \<Longrightarrow> e < numeric_date now \<Longrightarrow> expired now c"
  unfolding expired_def get_or_0_def numeric_date_def by simp

lemma verify_token_accepts_iff:
  "verify_token secret_key now tok tt = Inr p \<longleftrightarrow>
     (tok = Jwt secret_key p \<and> c_token_type p = Some tt \<and> \<not> expired now p \<and>
      \<not> issued_in_future now p \<and> \<not> not_yet_valid now p \<and> \<not> audience_mismatch p \<and>
      \<not> issuer_mismatch p)"
proof (cases tok)
  case (NotJwt s)
  then show ?thesis
    by (simp add: verify_token_def verify_token_body_def jwt_decode_def)
next
  case (Jwt k c)
  have dec: "jwt_decode secret_key now ''tumataxi-app'' ''makko-intelligence-auth'' (Jwt k c) = Inr p
      \<longleftrightarrow> (k = secret_key \<and> c = p \<and> \<not> not_yet_valid now p \<and>
           \<not> (\<exists>e. c_exp p = Some e \<and> e < numeric_date now) \<and>
           \<not> audience_mismatch p \<and> \<not> issuer_mismatch p)"
    unfolding jwt_decode_def not_yet_valid_def audience_mismatch_def issuer_mismatch_def
    by (cases "c_nbf c"; cases "c_exp c"; cases "c_aud c") auto
  have body: "verify_token_body secret_key now tok tt = Inr p \<longleftrightarrow>
      (jwt_decode secret_key now ''tumataxi-app'' ''makko-intelligence-auth'' tok = Inr p \<and>
       c_token_type p = Some tt \<and> \<not> expired now p \<and> \<not> issued_in_future now p)"
    unfolding verify_token_body_def expired_def issued_in_future_def
    by (cases "jwt_decode secret_key now ''tumataxi-app'' ''makko-intelligence-auth'' tok") auto
  have top: "verify_token secret_key now tok tt = Inr p \<longleftrightarrow>
      verify_token_body secret_key now tok tt = Inr p"
    unfolding verify_token_def
    by (cases "verify_token_body secret_key now tok tt") (auto split: exn.splits)
  have "verify_token secret_key now tok tt = Inr p \<longleftrightarrow>
      (k = secret_key \<and> c = p \<and> \<not> not_yet_valid now p \<and>
       \<not> (\<exists>e. c_exp p = Some e \<and> e < numeric_date now) \<and>
       \<not> audience_mismatch p \<and> \<not> issuer_mismatch p \<and>
       c_token_type p = Some tt \<and> \<not> expired now p \<and> \<not> issued_in_future now p)"
    using top body dec by (simp add: Jwt)
  then show ?thesis
    using jose_expiry_subsumed [of p _ now] Jwt by blast
qed

lemma verify_token_uniform:
  "(\<exists>p. verify_token secret_key now tok tt = Inr p) \<or>
   verify_token secret_key now tok tt = Inl (SecurityException ''Invalid token'') \<or>
   verify_token secret_key now tok tt = Inl (SecurityException ''Token verification failed'')"
  by (simp add: verify_token_def split: sum.splits exn.splits)


text \<open>
  The claims of an access token as \<open>create_access_token\<close> writes them, and the same
  claims under another issuer.
\<close>

definition good_claims :: claims where
  "good_claims =
    \<lparr>c_sub = Some ''user-1'', c_role = Some ''driver'', c_session_id = Some ''sess-1'',
     c_email = Some ''a@b.co'', c_family_id = None,
     c_exp = Some 1700000900, c_iat = Some 1700000000, c_nbf = None,
     c_iss = Some ''makko-intelligence-auth'', c_aud = Some ''tumataxi-app'',
     c_jti = Some ''jti-1'', c_token_type = Some ''access''\<rparr>"

definition foreign_issuer_claims :: claims where
  "foreign_issuer_claims = good_claims\<lparr>c_iss := Some ''another-service''\<rparr>"

text \<open>
  C5, as stated, fails: a token signed with the service secret, of the expected type, not
  expired and not issued in the future, is still refused when its issuer is not this
  service, because \<open>verify_token\<close> passes \<open>issuer\<close> and \<open>audience\<close> to
  \<open>jwt.decode\<close>.
\<close>

theorem verify_token_counterexample:
  "signature_verifies ''key'' (Jwt ''key'' foreign_issuer_claims)
   \<and> c_token_type foreign_issuer_claims = Some ''access''
   \<and> \<not> expired 1700000001000000 foreign_issuer_claims
   \<and> \<not> issued_in_future 1700000001000000 foreign_issuer_claims
   \<and> verify_token ''key'' 1700000001000000 (Jwt ''key'' foreign_issuer_claims) ''access''
        = Inl (SecurityException ''Invalid token'')"
  by (simp add: signature_verifies_def foreign_issuer_claims_def good_claims_def expired_def
        issued_in_future_def get_or_0_def verify_token_def verify_token_body_def jwt_decode_def
        numeric_date_def)

text \<open>
  C5, amended. \<open>verify_token\<close> refuses a token whenever its signature does not verify
  against the service secret, its \<open>token_type\<close> differs from the expected type, its
  \<open>exp\<close> (0 when absent) is in the past, its \<open>iat\<close> is more than 60 seconds in the
  future, its \<open>nbf\<close> is in the future, its \<open>aud\<close> is present and is not
  \<open>tumataxi-app\<close>, or its \<open>iss\<close> is not \<open>makko-intelligence-auth\<close>; when none of
  these holds it returns the decoded claim set; and every refusal is a
  \<open>SecurityException\<close>.
\<close>

theorem verify_token_uniform_rejection:
  "((\<not> signature_verifies secret_key tok \<or>
     (\<exists>c. tok = Jwt secret_key c \<and>
        (c_token_type c \<noteq> Some tt \<or> expired now c \<or> issued_in_future now c \<or>
         not_yet_valid now c \<or> audience_mismatch c \<or> issuer_mismatch c)))
      \<longrightarrow> (\<exists>msg. verify_token secret_key now tok tt = Inl (SecurityException msg)))
   \<and> (\<forall>c. tok = Jwt secret_key c \<and> c_token_type c = Some tt \<and> \<not> expired now c \<and>
          \<not> issued_in_future now c \<and> \<not> not_yet_valid now c \<and> \<not> audience_mismatch c \<and>
          \<not> issuer_mismatch c
        \<longrightarrow> verify_token secret_key now tok tt = Inr c)
   \<and> (\<forall>e. verify_token secret_key now tok tt = Inl e \<longrightarrow> (\<exists>msg. e = SecurityException msg))"
proof -
  have acc: "\<And>c. tok = Jwt secret_key c \<and> c_token_type c = Some tt \<and> \<not> expired now c \<and>
          \<not> issued_in_future now c \<and> \<not> not_yet_valid now c \<and> \<not> audience_mismatch c \<and>
          \<not> issuer_mismatch c
        \<Longrightarrow> verify_token secret_key now tok tt = Inr c"
    by (simp add: verify_token_accepts_iff)
  have uni: "\<And>e. verify_token secret_key now tok tt = Inl e \<Longrightarrow> \<exists>msg. e = SecurityException msg"
    using verify_token_uniform [of secret_key now tok tt] by auto
  have rej: "\<exists>msg. verify_token secret_key now tok tt = Inl (SecurityException msg)"
    if bad: "\<not> signature_verifies secret_key tok \<or>
     (\<exists>c. tok = Jwt secret_key c \<and>
        (c_token_type c \<noteq> Some tt \<or> expired now c \<or> issued_in_future now c \<or>
         not_yet_valid now c \<or> audience_mismatch c \<or> issuer_mismatch c))"
  proof -
    have "\<not> (\<exists>p. verify_token secret_key now tok tt = Inr p)"
    proof
      assume "\<exists>p. verify_token secret_key now tok tt = Inr p"
      then obtain p where "verify_token secret_key now tok tt = Inr p" ..
      then have p: "tok = Jwt secret_key p" "c_token_type p = Some tt" "\<not> expired now p"
          "\<not> issued_in_future now p" "\<not> not_yet_valid now p" "\<not> audience_mismatch p"
          "\<not> issuer_mismatch p"
        by (simp_all add: verify_token_accepts_iff)
      with bad show False
        by (auto simp: signature_verifies_def)
    qed
    with verify_token_uniform [of secret_key now tok tt] show ?thesis
      by blast
  qed
  from acc uni rej show ?thesis
    by blast
qed

theorem verify_token_uniform_rejection_witness:
  "verify_token ''key'' 1700000001000000 (Jwt ''key'' good_claims) ''access'' = Inr good_claims
   \<and> (\<exists>msg. verify_token ''key'' 1700000001000000 (Jwt ''other'' good_claims) ''access''
          = Inl (SecurityException msg))
   \<and> (\<exists>msg. verify_token ''key'' 1700000001000000 (Jwt ''key'' good_claims) ''refresh''
          = Inl (SecurityException msg))"
proof -
  have a: "c_token_type good_claims = Some ''access'' \<and> \<not> expired 1700000001000000 good_claims \<and>
          \<not> issued_in_future 1700000001000000 good_claims \<and>
          \<not> not_yet_valid 1700000001000000 good_claims \<and>
          \<not> audience_mismatch good_claims \<and> \<not> issuer_mismatch good_claims"
    by (simp add: good_claims_def expired_def issued_in_future_def not_yet_valid_def
          audience_mismatch_def issuer_mismatch_def get_or_0_def)
  have b: "\<not> signature_verifies ''key'' (Jwt ''other'' good_claims)"
    by (simp add: signature_verifies_def)
  have c: "c_token_type good_claims \<noteq> Some ''refresh''"
    by (simp add: good_claims_def)
  show ?thesis
    using a b c
      verify_token_uniform_rejection [of "''key''" "Jwt ''key'' good_claims" "''access''" 1700000001000000]
      verify_token_uniform_rejection [of "''key''" "Jwt ''other'' good_claims" "''access''" 1700000001000000]
      verify_token_uniform_rejection [of "''key''" "Jwt ''key'' good_claims" "''refresh''" 1700000001000000]
    by blast
qed

section \<open>database/models.py\<close>

text \<open>
  The ORM classes as records, one row each, and the database as the lists of rows. The
  columns that no modelled function reads or writes are left out. The database is the
  persistence collaborator: every write is taken to succeed, so column types and
  constraints are not modelled. A query without \<open>ORDER BY\<close> returns the rows in table
  order, and \<open>.first()\<close> is \<open>find\<close>.
\<close>

datatype UserStatus =
  User_ACTIVE | User_INACTIVE | User_SUSPENDED | User_PENDING_VERIFICATION | User_DELETED

fun user_status_value :: "UserStatus \<Rightarrow> string" where
  "user_status_value User_ACTIVE = ''active''"
| "user_status_value User_INACTIVE = ''inactive''"
| "user_status_value User_SUSPENDED = ''suspended''"
| "user_status_value User_PENDING_VERIFICATION = ''pending_verification''"
| "user_status_value User_DELETED = ''deleted''"

datatype SessionStatus =
  Session_ACTIVE | Session_EXPIRED | Session_REVOKED | Session_SUSPICIOUS

record user =
  u_id :: string
  email :: string
  hashed_password :: string
  password_salt :: string
  role :: string
  u_status :: UserStatus
  deleted_at :: "datetime option"
  failed_login_attempts :: int
  account_locked_until :: "datetime option"
  last_login_at :: "datetime option"
  last_login_ip :: "string option"

text \<open>\<open>User.is_active\<close> and \<open>User.is_locked\<close>\<close>

definition user_is_active :: "datetime \<Rightarrow> user \<Rightarrow> bool" where
  "user_is_active now u =
    (u_status u = User_ACTIVE \<and> deleted_at u = None \<and>
     (case account_locked_until u of None \<Rightarrow> True | Some l \<Rightarrow> l < now))"

definition is_locked :: "datetime \<Rightarrow> user \<Rightarrow> bool" where
  "is_locked now u = (case account_locked_until u of None \<Rightarrow> False | Some l \<Rightarrow> l > now)"

record user_session =
  s_id :: string
  s_user_id :: string
  session_token :: string
  session_id :: string
  s_status :: SessionStatus
  s_user_agent :: string
  s_ip_address :: string
  country_code :: "string option"
  s_created_at :: datetime
  last_activity_at :: datetime
  s_expires_at :: datetime
  ended_at :: "datetime option"
  is_suspicious :: bool
  risk_score :: int

text \<open>\<open>UserSession.is_active\<close>\<close>

definition session_is_active :: "datetime \<Rightarrow> user_session \<Rightarrow> bool" where
  "session_is_active now s =
    (s_status s = Session_ACTIVE \<and> s_expires_at s > now \<and> ended_at s = None)"

record refresh_token =
  rt_user_id :: string
  rt_session_id :: string
  token_hash :: string
  token_family :: string
  is_revoked :: bool
  is_used :: bool
  rt_created_at :: datetime
  rt_expires_at :: datetime
  used_at :: "datetime option"
  revoked_at :: "datetime option"
  rt_ip_address :: string

text \<open>\<open>RefreshToken.is_valid\<close>\<close>

definition is_valid :: "datetime \<Rightarrow> refresh_token \<Rightarrow> bool" where
  "is_valid now t = (\<not> is_revoked t \<and> \<not> is_used t \<and> rt_expires_at t > now)"

record security_event =
  ev_user_id :: "string option"
  event_type :: string
  severity :: string
  description :: string
  ev_ip_address :: string
  confidence_score :: int

record audit_log =
  al_user_id :: "string option"
  al_session_id :: "string option"
  al_action :: string
  al_success :: bool
  al_error_message :: "string option"

record db =
  users :: "user list"
  sessions :: "user_session list"
  refresh_tokens :: "refresh_token list"
  security_events :: "security_event list"
  audit_logs :: "audit_log list"

text \<open>
  An attribute assignment on the object that \<open>.first()\<close> returned, written back by the
  next commit: the first row that satisfies the filter is replaced.
\<close>

fun update_first :: "('a \<Rightarrow> bool) \<Rightarrow> ('a \<Rightarrow> 'a) \<Rightarrow> 'a list \<Rightarrow> 'a list" where
  "update_first P f [] = []"
| "update_first P f (x # xs) = (if P x then f x # xs else x # update_first P f xs)"

lemma find_update_first:
  "(\<And>x. P x \<Longrightarrow> P (f x)) \<Longrightarrow> find P (update_first P f xs) = map_option f (find P xs)"
  by (induction xs) auto

lemma length_update_first: "length (update_first P f xs) = length xs"
  by (induction xs) auto


section \<open>Collaborators\<close>

text \<open>
  What the functions take from outside the repository. \<open>services\<close>: the service
  secret; \<open>pwd_verify\<close>, passlib's \<open>pwd_context.verify\<close> (with \<open>False\<close> where
  \<open>verify_password\<close> catches an exception); \<open>sha256_hex\<close>,
  \<open>hashlib.sha256(token.encode()).hexdigest()\<close>; and \<open>str_datetime\<close>, the rendering
  of a \<open>datetime\<close> in an f-string. \<open>fresh\<close>: the values one request draws from
  \<open>secrets.token_urlsafe\<close> and \<open>uuid.uuid4\<close>. \<open>http_request\<close>: the result of
  \<open>get_client_ip(request)\<close>, the \<open>user-agent\<close> header, and the token of an
  \<open>authorization\<close> header that starts with \<open>Bearer \<close> (\<open>None\<close> for any other header).
  Signing a token is taken to succeed.
\<close>

record services =
  secret_key :: string
  pwd_verify :: "string \<Rightarrow> string \<Rightarrow> bool"
  sha256_hex :: "token \<Rightarrow> string"
  str_datetime :: "datetime \<Rightarrow> string"

record fresh =
  new_session_token :: string
  new_session_id :: string
  new_session_uuid :: string
  new_family_id :: string
  new_access_jti :: string
  new_refresh_jti :: string

record http_request =
  client_ip :: string
  user_agent :: "string option"
  bearer :: "token option"

text \<open>\<open>CryptographicService.verify_password\<close>\<close>

definition verify_password :: "services \<Rightarrow> string \<Rightarrow> string \<Rightarrow> string \<Rightarrow> bool" where
  "verify_password svc password hashed salt = pwd_verify svc (password @ salt) hashed"

definition no_claims :: claims where
  "no_claims =
    \<lparr>c_sub = None, c_role = None, c_session_id = None, c_email = None, c_family_id = None,
     c_exp = None, c_iat = None, c_nbf = None, c_iss = None, c_aud = None, c_jti = None,
     c_token_type = None\<rparr>"

text \<open>
  \<open>JWTService.create_access_token\<close>: \<open>data\<close> holds the caller's claims, and
  \<open>expires_delta\<close> is used only when it is truthy.
\<close>

definition create_access_token ::
    "services \<Rightarrow> datetime \<Rightarrow> string \<Rightarrow> claims \<Rightarrow> int option \<Rightarrow> token" where
  "create_access_token svc now jti data expires_delta =
    (let expire =
           (case expires_delta of
              Some d \<Rightarrow> if d \<noteq> 0 then now + d
                        else now + timedelta_minutes ACCESS_TOKEN_EXPIRE_MINUTES
            | None \<Rightarrow> now + timedelta_minutes ACCESS_TOKEN_EXPIRE_MINUTES)
     in Jwt (secret_key svc)
          (data\<lparr>c_exp := Some (numeric_date expire), c_iat := Some (numeric_date now),
                c_iss := Some ''makko-intelligence-auth'', c_aud := Some ''tumataxi-app'',
                c_jti := Some jti, c_token_type := Some ''access''\<rparr>))"

text \<open>
  \<open>JWTService.create_refresh_token\<close> and the dict it returns. A family identifier is
  generated only when the caller passes none.
\<close>

record refresh_token_data =
  rd_token :: token
  rd_token_hash :: string
  rd_family_id :: string
  rd_expires_at :: datetime

definition create_refresh_token ::
    "services \<Rightarrow> datetime \<Rightarrow> string \<Rightarrow> string \<Rightarrow> string \<Rightarrow> string \<Rightarrow> string option
      \<Rightarrow> refresh_token_data" where
  "create_refresh_token svc now jti generated_family user_id sess_id family_id =
    (let family = (case family_id of None \<Rightarrow> generated_family | Some f \<Rightarrow> f);
         expire = now + timedelta_days REFRESH_TOKEN_EXPIRE_DAYS;
         tok = Jwt (secret_key svc)
                 (no_claims\<lparr>c_sub := Some user_id, c_session_id := Some sess_id,
                    c_family_id := Some family, c_exp := Some (numeric_date expire),
                    c_iat := Some (numeric_date now),
                    c_iss := Some ''makko-intelligence-auth'', c_aud := Some ''tumataxi-app'',
                    c_jti := Some jti, c_token_type := Some ''refresh''\<rparr>)
     in \<lparr>rd_token = tok, rd_token_hash = sha256_hex svc tok, rd_family_id = family,
         rd_expires_at = expire\<rparr>)"

section \<open>core/utils.py\<close>

text \<open>\<open>get_geo_location\<close>, the pair of \<open>country_code\<close> and \<open>city\<close>.\<close>

definition get_geo_location :: "string \<Rightarrow> string option \<times> string option" where
  "get_geo_location ip =
    (if ip = ''127.0.0.1'' then (Some ''US'', Some ''Local'')
     else if ip = ''::1'' then (Some ''US'', Some ''Local'')
     else if ip = ''unknown'' then (None, None)
     else (Some ''US'', Some ''Unknown''))"

section \<open>api/auth.py: sessions\<close>

text \<open>
  \<open>UserSession(...)\<close> in \<open>create_user_session\<close> builds an object that is not yet a
  row. The ORM applies a column's \<open>default=\<close> when the row is inserted, not when the
  object is built, so the attributes the constructor was not given, \<open>is_suspicious\<close>
  and \<open>risk_score\<close> among them, read as \<open>None\<close> until then. \<open>session_draft\<close> is
  that object and \<open>insert_session\<close> the insertion with the defaults of models.py.
\<close>

record session_draft =
  d_user_id :: string
  d_session_token :: string
  d_session_id :: string
  d_user_agent :: string
  d_ip_address :: string
  d_country_code :: "string option"
  d_expires_at :: datetime
  d_is_suspicious :: "bool option"
  d_risk_score :: "int option"

definition insert_session :: "datetime \<Rightarrow> string \<Rightarrow> session_draft \<Rightarrow> user_session" where
  "insert_session now uuid d =
    \<lparr>s_id = uuid, s_user_id = d_user_id d, session_token = d_session_token d,
     session_id = d_session_id d, s_status = Session_ACTIVE, s_user_agent = d_user_agent d,
     s_ip_address = d_ip_address d, country_code = d_country_code d, s_created_at = now,
     last_activity_at = now, s_expires_at = d_expires_at d, ended_at = None,
     is_suspicious = (case d_is_suspicious d of None \<Rightarrow> False | Some b \<Rightarrow> b),
     risk_score = (case d_risk_score d of None \<Rightarrow> 0 | Some r \<Rightarrow> r)\<rparr>"

text \<open>The truth value of an optional string: neither \<open>None\<close> nor empty.\<close>

definition truthy :: "string option \<Rightarrow> bool" where
  "truthy v = (case v of None \<Rightarrow> False | Some s \<Rightarrow> s \<noteq> [])"

text \<open>
  The filter of the query in \<open>detect_suspicious_session\<close>, and the positions in the
  table of the rows it returns.
\<close>

definition active_session :: "datetime \<Rightarrow> string \<Rightarrow> user_session \<Rightarrow> bool" where
  "active_session now uid s =
    (s_user_id s = uid \<and> s_status s = Session_ACTIVE \<and> s_expires_at s > now)"

definition active_indices :: "datetime \<Rightarrow> string \<Rightarrow> user_session list \<Rightarrow> nat list" where
  "active_indices now uid ss = filter (\<lambda>i. active_session now uid (ss ! i)) [0..<length ss]"

text \<open>
  \<open>min(xs, key=...)\<close> keeps the first of several least elements; \<open>min_by key x xs\<close>
  is the minimum of the non-empty list \<open>x # xs\<close>.
\<close>

fun min_by :: "('a \<Rightarrow> int) \<Rightarrow> 'a \<Rightarrow> 'a list \<Rightarrow> 'a" where
  "min_by key best [] = best"
| "min_by key best (x # xs) = min_by key (if key x < key best then x else best) xs"

definition revoke_session :: "datetime \<Rightarrow> user_session \<Rightarrow> user_session" where
  "revoke_session now s = s\<lparr>s_status := Session_REVOKED, ended_at := Some now\<rparr>"

text \<open>
  \<open>detect_suspicious_session\<close>. It changes the new session object, adds a security
  event and changes the oldest active session; the caller commits. The database it
  returns holds these pending changes. \<open>max(session.risk_score, 50)\<close> raises
  \<open>TypeError\<close> when the risk score is \<open>None\<close>, before anything is revoked.
\<close>

definition detect_suspicious_session ::
    "datetime \<Rightarrow> user \<Rightarrow> session_draft \<Rightarrow> db \<Rightarrow> exn + (session_draft \<times> db)" where
  "detect_suspicious_session now usr session d =
    (let idxs = active_indices now (u_id usr) (sessions d);
         active_sessions = map (\<lambda>i. sessions d ! i) idxs;
         countries = filter (\<lambda>c. c \<noteq> [])
                       (concat (map (\<lambda>s. case country_code s of None \<Rightarrow> [] | Some c \<Rightarrow> [c])
                                  active_sessions));
         new_country =
           (case d_country_code session of
              None \<Rightarrow> None
            | Some c \<Rightarrow>
                if active_sessions \<noteq> [] \<and> c \<noteq> [] \<and> c \<notin> set countries \<and> countries \<noteq> []
                then Some c else None);
         session1 = (case new_country of
                       Some c \<Rightarrow> session\<lparr>d_is_suspicious := Some True, d_risk_score := Some 75\<rparr>
                     | None \<Rightarrow> session);
         d1 = (case new_country of
                 Some c \<Rightarrow>
                   d\<lparr>security_events := security_events d @
                        [\<lparr>ev_user_id = Some (u_id usr),
                          event_type = ''suspicious_login_location'', severity = ''medium'',
                          description = ''Login from new country: '' @ c,
                          ev_ip_address = d_ip_address session, confidence_score = 75\<rparr>]\<rparr>
               | None \<Rightarrow> d)
     in if length active_sessions \<ge> MAX_CONCURRENT_SESSIONS
        then (case d_risk_score session1 of
                None \<Rightarrow> Inl TypeError
              | Some r \<Rightarrow>
                  (case idxs of
                     [] \<Rightarrow> Inl ValueError
                   | i # rest \<Rightarrow>
                       let oldest = min_by (\<lambda>j. s_created_at (sessions d ! j)) i rest
                       in Inr (session1\<lparr>d_risk_score := Some (max r 50)\<rparr>,
                               d1\<lparr>sessions := (sessions d1)
                                    [oldest := revoke_session now (sessions d1 ! oldest)]\<rparr>)))
        else Inr (session1, d1))"

text \<open>
  \<open>create_user_session\<close>: an exception of \<open>detect_suspicious_session\<close> leaves before
  the commit.
\<close>

definition create_user_session ::
    "fresh \<Rightarrow> datetime \<Rightarrow> user \<Rightarrow> http_request \<Rightarrow> bool \<Rightarrow> db \<Rightarrow> exn + (user_session \<times> db)" where
  "create_user_session fr now usr request remember_me d =
    (let ip = client_ip request;
         ua = (case user_agent request of None \<Rightarrow> [] | Some a \<Rightarrow> a);
         geo_info = get_geo_location ip;
         expires = (if remember_me then now + timedelta_days 30
                    else now + timedelta_minutes SESSION_TIMEOUT_MINUTES);
         session = \<lparr>d_user_id = u_id usr, d_session_token = new_session_token fr,
                    d_session_id = new_session_id fr, d_user_agent = ua, d_ip_address = ip,
                    d_country_code = fst geo_info, d_expires_at = expires,
                    d_is_suspicious = None, d_risk_score = None\<rparr>
     in case detect_suspicious_session now usr session d of
          Inl e \<Rightarrow> Inl e
        | Inr (session1, d1) \<Rightarrow>
            let row = insert_session now (new_session_uuid fr) session1
            in Inr (row, d1\<lparr>sessions := sessions d1 @ [row]\<rparr>))"


section \<open>api/auth.py: login\<close>

record login_request =
  lr_email :: string
  lr_password :: string
  lr_remember_me :: bool

record token_response =
  access_token :: token
  refresh_token :: token
  expires_in :: int

text \<open>\<open>log_audit_event\<close> adds a row and commits.\<close>

definition log_audit_event ::
    "string option \<Rightarrow> string \<Rightarrow> bool \<Rightarrow> string option \<Rightarrow> string option \<Rightarrow> db \<Rightarrow> db" where
  "log_audit_event user_id action success error_message sess_id d =
    d\<lparr>audit_logs := audit_logs d @
        [\<lparr>al_user_id = user_id, al_session_id = sess_id, al_action = action,
          al_success = success, al_error_message = error_message\<rparr>]\<rparr>"

definition by_email :: "string \<Rightarrow> user \<Rightarrow> bool" where
  "by_email e u = (email u = e)"

text \<open>
  The two updates of the credential record in \<open>login_user\<close>: lines 477 to 484 after a
  failed password verification, lines 521 to 525 after a successful one.
\<close>

definition register_failure :: "datetime \<Rightarrow> user \<Rightarrow> user" where
  "register_failure now u =
    (let u1 = u\<lparr>failed_login_attempts := failed_login_attempts u + 1\<rparr>
     in if failed_login_attempts u1 \<ge> MAX_LOGIN_ATTEMPTS
        then u1\<lparr>account_locked_until :=
                  Some (now + timedelta_minutes ACCOUNT_LOCK_DURATION_MINUTES)\<rparr>
        else u1)"

definition register_success :: "datetime \<Rightarrow> string \<Rightarrow> user \<Rightarrow> user" where
  "register_success now ip u =
    u\<lparr>failed_login_attempts := 0, account_locked_until := None,
      last_login_at := Some now, last_login_ip := Some ip\<rparr>"

text \<open>
  \<open>login_user\<close>. \<open>login_user_body\<close> is the \<open>try\<close> block; it returns the response or
  the exception together with the database as last committed, so the changes pending when
  an exception leaves the block are dropped with the request's database session. The
  handlers follow: an \<open>HTTPException\<close> is raised again, any other exception becomes the
  500 response.
\<close>

definition login_user_body ::
    "services \<Rightarrow> fresh \<Rightarrow> datetime \<Rightarrow> login_request \<Rightarrow> http_request \<Rightarrow> db
      \<Rightarrow> (exn + token_response) \<times> db" where
  "login_user_body svc fr now request http d =
    (case find (by_email (lr_email request)) (users d) of
       None \<Rightarrow>
         (Inl (HTTPException 401 ''Invalid credentials''),
          log_audit_event None ''failed_login'' False (Some ''User not found'') None d)
     | Some usr \<Rightarrow>
         if is_locked now usr then
           (Inl (HTTPException 423
                  (''Account is locked until '' @
                   (case account_locked_until usr of
                      None \<Rightarrow> ''None'' | Some l \<Rightarrow> str_datetime svc l))),
            log_audit_event (Some (u_id usr)) ''failed_login'' False (Some ''Account locked'')
              None d)
         else if \<not> verify_password svc (lr_password request) (hashed_password usr)
                   (password_salt usr) then
           (let usr1 = register_failure now usr;
                d1 = d\<lparr>users := update_first (by_email (lr_email request))
                                   (\<lambda>u. usr1) (users d)\<rparr>;
                d2 = (if failed_login_attempts usr1 \<ge> MAX_LOGIN_ATTEMPTS
                      then d1\<lparr>security_events := security_events d1 @
                             [\<lparr>ev_user_id = Some (u_id usr), event_type = ''account_locked'',
                               severity = ''high'',
                               description =
                                 ''Account locked due to multiple failed login attempts'',
                               ev_ip_address = client_ip http, confidence_score = 90\<rparr>]\<rparr>
                      else d1)
            in (Inl (HTTPException 401 ''Invalid credentials''),
                log_audit_event (Some (u_id usr)) ''failed_login'' False
                  (Some ''Invalid password'') None d2))
         else if \<not> user_is_active now usr then
           (Inl (HTTPException 403 (''Account is '' @ user_status_value (u_status usr))),
            log_audit_event (Some (u_id usr)) ''failed_login'' False
              (Some (''Account status: '' @ user_status_value (u_status usr))) None d)
         else
           (let usr1 = register_success now (client_ip http) usr;
                d1 = d\<lparr>users := update_first (by_email (lr_email request))
                                   (\<lambda>u. usr1) (users d)\<rparr>
            in case create_user_session fr now usr1 http (lr_remember_me request) d1 of
                 Inl e \<Rightarrow> (Inl e, d)
               | Inr (session, d2) \<Rightarrow>
                   let access =
                         create_access_token svc now (new_access_jti fr)
                           (no_claims\<lparr>c_sub := Some (u_id usr1), c_role := Some (role usr1),
                              c_session_id := Some (session_id session),
                              c_email := Some (email usr1)\<rparr>)
                           (if lr_remember_me request then Some (timedelta_days 1) else None);
                       rd = create_refresh_token svc now (new_refresh_jti fr)
                              (new_family_id fr) (u_id usr1) (session_id session) None;
                       d3 = d2\<lparr>refresh_tokens := refresh_tokens d2 @
                              [\<lparr>rt_user_id = u_id usr1, rt_session_id = s_id session,
                                token_hash = rd_token_hash rd, token_family = rd_family_id rd,
                                is_revoked = False, is_used = False, rt_created_at = now,
                                rt_expires_at = rd_expires_at rd, used_at = None,
                                revoked_at = None, rt_ip_address = client_ip http\<rparr>]\<rparr>;
                       d4 = log_audit_event (Some (u_id usr1)) ''login'' True None
                              (Some (session_id session)) d3
                   in (Inr \<lparr>access_token = access, refresh_token = rd_token rd,
                             expires_in = ACCESS_TOKEN_EXPIRE_MINUTES * 60\<rparr>, d4)))"

definition login_user ::
    "services \<Rightarrow> fresh \<Rightarrow> datetime \<Rightarrow> login_request \<Rightarrow> http_request \<Rightarrow> db
      \<Rightarrow> (exn + token_response) \<times> db" where
  "login_user svc fr now request http d =
    (case login_user_body svc fr now request http d of
       (Inl (HTTPException code detail), d') \<Rightarrow> (Inl (HTTPException code detail), d')
     | (Inl e, d') \<Rightarrow>
         (Inl (HTTPException 500 ''Authentication service temporarily unavailable''), d')
     | (Inr response, d') \<Rightarrow> (Inr response, d'))"















subsection \<open>A concrete database\<close>

definition demo_services :: services where
  "demo_services =
    \<lparr>secret_key = ''service-secret'', pwd_verify = (\<lambda>secret hashed. hashed = ''hash:'' @ secret),
     sha256_hex = (\<lambda>tok. case tok of
                      Jwt k c \<Rightarrow> (case c_jti c of None \<Rightarrow> ''sha-'' | Some j \<Rightarrow> ''sha-'' @ j)
                    | NotJwt s \<Rightarrow> ''sha-'' @ s),
     str_datetime = (\<lambda>t. ''a date'')\<rparr>"

definition demo_fresh :: fresh where
  "demo_fresh =
    \<lparr>new_session_token = ''tok-9'', new_session_id = ''sid-9'', new_session_uuid = ''uuid-9'',
     new_family_id = ''fam-9'', new_access_jti = ''jti-a9'', new_refresh_jti = ''jti-r9''\<rparr>"

definition demo_http :: http_request where
  "demo_http = \<lparr>client_ip = ''203.0.113.7'', user_agent = Some ''Mozilla/5.0'', bearer = None\<rparr>"

definition alice :: user where
  "alice =
    \<lparr>u_id = ''user-1'', email = ''alice@example.com'', hashed_password = ''hash:correct-horse-s1'',
     password_salt = ''-s1'', role = ''passenger'', u_status = User_ACTIVE, deleted_at = None,
     failed_login_attempts = 0, account_locked_until = None, last_login_at = None,
     last_login_ip = None\<rparr>"

definition demo_db :: db where
  "demo_db = \<lparr>users = [alice], sessions = [], refresh_tokens = [], security_events = [],
               audit_logs = []\<rparr>"

definition good_login :: login_request where
  "good_login = \<lparr>lr_email = ''alice@example.com'', lr_password = ''correct-horse'',
                  lr_remember_me = False\<rparr>"





section \<open>The concurrency cap of \<open>detect_suspicious_session\<close>\<close>

lemma min_by_least: "min_by key x xs \<in> set (x # xs) \<and> (\<forall>y \<in> set (x # xs). key (min_by key x xs) \<le> key y)"
proof (induction xs arbitrary: x)
  case Nil
  then show ?case by simp
next
  case (Cons a xs)
  from Cons.IH [of "if key a < key x then a else x"] show ?case
    by (auto split: if_splits)
qed

text \<open>
  When \<open>detect_suspicious_session\<close> returns for a user with at least
  \<open>MAX_CONCURRENT_SESSIONS\<close> active sessions, the new session's risk score is at least
  50 and exactly one row changed: an active session with the least \<open>created_at\<close> was
  revoked.
\<close>

lemma cap_eviction_oldest_first:
  assumes run: "detect_suspicious_session now usr s d = Inr (s', d')"
    and cap: "length (active_indices now (u_id usr) (sessions d)) \<ge> MAX_CONCURRENT_SESSIONS"
  shows "\<exists>j r. d_risk_score s' = Some r \<and> 50 \<le> r \<and>
           j \<in> set (active_indices now (u_id usr) (sessions d)) \<and>
           (\<forall>i \<in> set (active_indices now (u_id usr) (sessions d)).
               s_created_at (sessions d ! j) \<le> s_created_at (sessions d ! i)) \<and>
           sessions d' = (sessions d)[j := revoke_session now (sessions d ! j)]"
proof -
  let ?idxs = "active_indices now (u_id usr) (sessions d)"
  from cap obtain i rest where idxs: "?idxs = i # rest"
    by (cases ?idxs) (auto simp: MAX_CONCURRENT_SESSIONS_def)
  let ?j = "min_by (\<lambda>j. s_created_at (sessions d ! j)) i rest"
  from run cap idxs have
    "(\<exists>r. d_risk_score s' = Some r \<and> 50 \<le> r) \<and>
     sessions d' = (sessions d)[?j := revoke_session now (sessions d ! ?j)]"
    by (auto simp: detect_suspicious_session_def Let_def split: option.splits if_splits)
  then obtain r where s': "d_risk_score s' = Some r" "50 \<le> r"
    and d': "sessions d' = (sessions d)[?j := revoke_session now (sessions d ! ?j)]"
    by blast
  from min_by_least [of "\<lambda>j. s_created_at (sessions d ! j)" i rest] idxs
  have "?j \<in> set ?idxs \<and>
        (\<forall>k \<in> set ?idxs. s_created_at (sessions d ! ?j) \<le> s_created_at (sessions d ! k))"
    by simp
  with s' d' show ?thesis
    by (intro exI [of _ ?j] exI [of _ r]) simp
qed

text \<open>
  The database of \<open>demo_db\<close> with three active sessions of the user, created at three
  successive times, all located by \<open>get_geo_location\<close>.
\<close>

definition demo_session :: "string \<Rightarrow> datetime \<Rightarrow> user_session" where
  "demo_session n created =
    \<lparr>s_id = ''uuid-'' @ n, s_user_id = ''user-1'', session_token = ''tok-'' @ n,
     session_id = ''sid-'' @ n, s_status = Session_ACTIVE, s_user_agent = ''Mozilla/5.0'',
     s_ip_address = ''203.0.113.7'', country_code = Some ''US'', s_created_at = created,
     last_activity_at = created, s_expires_at = created + timedelta_days 30, ended_at = None,
     is_suspicious = False, risk_score = 0\<rparr>"

definition crowded_db :: db where
  "crowded_db =
    demo_db\<lparr>sessions := [demo_session ''1'' 1699990000000000,
                           demo_session ''2'' 1699991000000000,
                           demo_session ''3'' 1699992000000000]\<rparr>"

lemma crowded_active:
  "active_indices 1700000000000000 ''user-1'' (sessions crowded_db) = [0, 1, 2]"
  by (simp add: active_indices_def crowded_db_def demo_session_def active_session_def
        timedelta_days_def upt_rec)

text \<open>
  C6 fails on the code. The session object that \<open>create_user_session\<close> builds has no
  risk score yet, and \<open>get_geo_location\<close> answers \<open>US\<close> or nothing, so the
  new-country rule has not set one when the cap is reached: with three active sessions,
  \<open>max(session.risk_score, 50)\<close> raises \<open>TypeError\<close>, the login answers 500, and no
  session is revoked.
\<close>

theorem concurrency_cap_raises_type_error:
  "detect_suspicious_session 1700000000000000 alice
      \<lparr>d_user_id = ''user-1'', d_session_token = ''tok-9'', d_session_id = ''sid-9'',
       d_user_agent = ''Mozilla/5.0'', d_ip_address = ''203.0.113.7'',
       d_country_code = Some ''US'', d_expires_at = 1700007200000000,
       d_is_suspicious = None, d_risk_score = None\<rparr> crowded_db = Inl TypeError
   \<and> login_user demo_services demo_fresh 1700000000000000 good_login demo_http crowded_db
       = (Inl (HTTPException 500 ''Authentication service temporarily unavailable''), crowded_db)"
proof -
  have u: "u_id alice = ''user-1''"
    by (simp add: alice_def)
  have det: "detect_suspicious_session 1700000000000000 alice'
      \<lparr>d_user_id = ''user-1'', d_session_token = ''tok-9'', d_session_id = ''sid-9'',
       d_user_agent = ''Mozilla/5.0'', d_ip_address = ''203.0.113.7'',
       d_country_code = Some ''US'', d_expires_at = x,
       d_is_suspicious = None, d_risk_score = None\<rparr> (crowded_db\<lparr>users := us\<rparr>) = Inl TypeError"
    if "u_id alice' = ''user-1''" for alice' us x
    using that crowded_active
    by (simp add: detect_suspicious_session_def Let_def crowded_db_def demo_session_def
          MAX_CONCURRENT_SESSIONS_def)
  have det0: "crowded_db\<lparr>users := users crowded_db\<rparr> = crowded_db"
    by simp
  have f: "find (by_email ''alice@example.com'') (users crowded_db) = Some alice"
    by (simp add: crowded_db_def demo_db_def by_email_def alice_def)
  have login: "login_user_body demo_services demo_fresh 1700000000000000 good_login demo_http
      crowded_db = (Inl TypeError, crowded_db)"
    using f det [of "register_success 1700000000000000 ''203.0.113.7'' alice"]
    by (simp add: login_user_body_def good_login_def is_locked_def verify_password_def
          demo_services_def user_is_active_def create_user_session_def Let_def
          get_geo_location_def demo_http_def demo_fresh_def register_success_def alice_def
          timedelta_minutes_def SESSION_TIMEOUT_MINUTES_def)
  show ?thesis
    using det [OF u, of 1700007200000000 "users crowded_db"] login
    by (simp add: det0 login_user_def)
qed

section \<open>api/auth.py: refresh and logout\<close>

text \<open>
  A name that a function body uses and does not bind itself is looked up, when the line
  runs, among the names bound at the top level of its module and then among the
  built-ins; a name found in neither raises \<open>NameError\<close>. \<open>auth_module_names\<close> lists
  the names that api/auth.py binds at top level: those of its import statements (lines 7
  to 26), its three assignments and its classes and functions. \<open>hashlib\<close> is not a
  built-in, and \<open>refresh_access_token\<close> does not bind it.
\<close>

definition auth_module_names :: "string list" where
  "auth_module_names =
    [''datetime'', ''timedelta'', ''timezone'', ''Optional'', ''Dict'', ''Any'', ''List'',
     ''APIRouter'', ''Depends'', ''HTTPException'', ''status'', ''Request'', ''Response'',
     ''BackgroundTasks'', ''HTTPBearer'', ''HTTPAuthorizationCredentials'', ''Session'',
     ''IntegrityError'', ''BaseModel'', ''EmailStr'', ''Field'', ''validator'', ''structlog'',
     ''ipaddress'', ''parse_user_agent'', ''User'', ''UserSession'', ''RefreshToken'',
     ''AuditLog'', ''SecurityEvent'', ''UserStatus'', ''UserRole'', ''SessionStatus'',
     ''AuditAction'', ''crypto_service'', ''jwt_service'', ''two_factor_service'',
     ''PasswordValidator'', ''SecurityConfig'', ''SecurityException'', ''get_db'',
     ''rate_limiter'', ''security_monitor'', ''get_client_ip'', ''get_device_fingerprint'',
     ''get_geo_location'', ''logger'', ''router'', ''security'', ''RegisterRequest'',
     ''LoginRequest'', ''TokenResponse'', ''RefreshTokenRequest'', ''ChangePasswordRequest'',
     ''ResetPasswordRequest'', ''ConfirmResetPasswordRequest'', ''Enable2FARequest'',
     ''Verify2FARequest'', ''UserProfileResponse'', ''get_current_user'',
     ''create_user_session'', ''detect_suspicious_session'', ''log_audit_event'',
     ''register_user'', ''login_user'', ''refresh_access_token'', ''logout_user'',
     ''get_current_user_profile'', ''send_verification_email'']"

definition resolve_global :: "string \<Rightarrow> exn + unit" where
  "resolve_global name =
    (if name \<in> set auth_module_names then Inr () else Inl (NameError name))"

text \<open>
  The two bulk updates of \<open>is_revoked\<close> and \<open>revoked_at\<close> (lines 640 to 645 and 774
  to 779) and the assignment of \<open>is_used\<close> and \<open>used_at\<close> (lines 676 and 677) change
  a row this way.
\<close>

definition revoke_token :: "datetime \<Rightarrow> refresh_token \<Rightarrow> refresh_token" where
  "revoke_token now t = t\<lparr>is_revoked := True, revoked_at := Some now\<rparr>"

definition mark_used :: "datetime \<Rightarrow> refresh_token \<Rightarrow> refresh_token" where
  "mark_used now t = t\<lparr>is_used := True, used_at := Some now\<rparr>"

text \<open>The filter of the lookup by token hash and user (lines 632 to 635).\<close>

definition presented :: "string \<Rightarrow> string \<Rightarrow> refresh_token \<Rightarrow> bool" where
  "presented th user_id r = (token_hash r = th \<and> rt_user_id r = user_id)"

definition token_reuse_event :: "string \<Rightarrow> http_request \<Rightarrow> security_event" where
  "token_reuse_event user_id http =
    \<lparr>ev_user_id = Some user_id, event_type = ''token_reuse_detected'', severity = ''critical'',
     description = ''Refresh token reuse detected - token family revoked'',
     ev_ip_address = client_ip http, confidence_score = 95\<rparr>"

text \<open>
  \<open>refresh_access_token\<close> from the lookup on (lines 632 to 729), given the claims read
  from the token and the token's hash. Without a record the request is refused and
  nothing is written; with a record that is not valid the whole family is revoked, the
  event is added and committed, and the request is refused; otherwise the record is
  marked used and a successor of the same family is stored.
\<close>

definition refresh_after_hash ::
    "services \<Rightarrow> fresh \<Rightarrow> datetime \<Rightarrow> string \<Rightarrow> string \<Rightarrow> string \<Rightarrow> string \<Rightarrow> http_request
      \<Rightarrow> db \<Rightarrow> (exn + token_response) \<times> db" where
  "refresh_after_hash svc fr now user_id sess_id family_id th http d =
    (case find (presented th user_id) (refresh_tokens d) of
       None \<Rightarrow> (Inl (HTTPException 401 ''Invalid or expired refresh token''), d)
     | Some rec \<Rightarrow>
         if \<not> is_valid now rec then
           (Inl (HTTPException 401 ''Invalid or expired refresh token''),
            d\<lparr>refresh_tokens :=
                 map (\<lambda>r. if token_family r = token_family rec then revoke_token now r else r)
                   (refresh_tokens d),
               security_events := security_events d @ [token_reuse_event user_id http]\<rparr>)
         else
           (case find (\<lambda>u. u_id u = user_id) (users d) of
              None \<Rightarrow> (Inl (HTTPException 401 ''Invalid session or user''), d)
            | Some usr \<Rightarrow>
                (case find (\<lambda>s. s_id s = sess_id) (sessions d) of
                   None \<Rightarrow> (Inl (HTTPException 401 ''Invalid session or user''), d)
                 | Some session \<Rightarrow>
                     if \<not> user_is_active now usr \<or> \<not> session_is_active now session
                     then (Inl (HTTPException 401 ''Invalid session or user''), d)
                     else
                       let access =
                             create_access_token svc now (new_access_jti fr)
                               (no_claims\<lparr>c_sub := Some (u_id usr), c_role := Some (role usr),
                                  c_session_id := Some (session_id session),
                                  c_email := Some (email usr)\<rparr>) None;
                           rd = create_refresh_token svc now (new_refresh_jti fr)
                                  (new_family_id fr) (u_id usr) (session_id session)
                                  (Some family_id);
                           successor =
                             \<lparr>rt_user_id = u_id usr, rt_session_id = s_id session,
                              token_hash = rd_token_hash rd, token_family = family_id,
                              is_revoked = False, is_used = False, rt_created_at = now,
                              rt_expires_at = rd_expires_at rd, used_at = None,
                              revoked_at = None, rt_ip_address = client_ip http\<rparr>
                       in (Inr \<lparr>access_token = access, refresh_token = rd_token rd,
                                 expires_in = ACCESS_TOKEN_EXPIRE_MINUTES * 60\<rparr>,
                           d\<lparr>refresh_tokens :=
                                update_first (presented th user_id) (mark_used now)
                                  (refresh_tokens d) @ [successor],
                              sessions :=
                                update_first (\<lambda>s. s_id s = sess_id)
                                  (\<lambda>s. s\<lparr>last_activity_at := now\<rparr>) (sessions d)\<rparr>))))"

text \<open>
  \<open>refresh_access_token\<close>: the \<open>try\<close> block and then its handlers. Line 631 evaluates
  the name \<open>hashlib\<close> before anything else of the expression.
\<close>

definition refresh_access_token_body ::
    "services \<Rightarrow> fresh \<Rightarrow> datetime \<Rightarrow> token \<Rightarrow> http_request \<Rightarrow> db
      \<Rightarrow> (exn + token_response) \<times> db" where
  "refresh_access_token_body svc fr now tok http d =
    (case verify_token (secret_key svc) now tok ''refresh'' of
       Inl e \<Rightarrow> (Inl e, d)
     | Inr payload \<Rightarrow>
         (case (c_sub payload, c_session_id payload, c_family_id payload) of
            (Some user_id, Some sess_id, Some family_id) \<Rightarrow>
              if user_id = [] \<or> sess_id = [] \<or> family_id = []
              then (Inl (HTTPException 401 ''Invalid refresh token payload''), d)
              else (case resolve_global ''hashlib'' of
                      Inl e \<Rightarrow> (Inl e, d)
                    | Inr u \<Rightarrow>
                        refresh_after_hash svc fr now user_id sess_id family_id
                          (sha256_hex svc tok) http d)
          | _ \<Rightarrow> (Inl (HTTPException 401 ''Invalid refresh token payload''), d)))"

definition refresh_access_token ::
    "services \<Rightarrow> fresh \<Rightarrow> datetime \<Rightarrow> token \<Rightarrow> http_request \<Rightarrow> db
      \<Rightarrow> (exn + token_response) \<times> db" where
  "refresh_access_token svc fr now tok http d =
    (case refresh_access_token_body svc fr now tok http d of
       (Inl (HTTPException code detail), d') \<Rightarrow> (Inl (HTTPException code detail), d')
     | (Inl e, d') \<Rightarrow>
         (Inl (HTTPException 500 ''Token refresh service temporarily unavailable''), d')
     | (Inr response, d') \<Rightarrow> (Inr response, d'))"

text \<open>
  \<open>logout_user\<close>; \<open>current_user\<close> is the user that \<open>get_current_user\<close> resolved.
  When the \<open>authorization\<close> header does not start with \<open>Bearer \<close> the variable
  \<open>session_id\<close> is never assigned, and reading it for the audit event raises
  \<open>UnboundLocalError\<close>, a \<open>NameError\<close>. The only handler turns every exception into
  the 500 response.
\<close>

definition logout_user_body ::
    "datetime \<Rightarrow> user \<Rightarrow> http_request \<Rightarrow> db \<Rightarrow> (exn + string) \<times> db" where
  "logout_user_body now current_user http d =
    (case bearer http of
       None \<Rightarrow> (Inl (NameError ''session_id''), d)
     | Some tok \<Rightarrow>
         let sid = (case decode_token_unsafe tok of None \<Rightarrow> None | Some p \<Rightarrow> c_session_id p);
             d1 = (case sid of
                     None \<Rightarrow> d
                   | Some s \<Rightarrow>
                       if s = [] then d
                       else (case find (\<lambda>x. session_id x = s \<and> s_user_id x = u_id current_user)
                                    (sessions d) of
                               None \<Rightarrow> d
                             | Some session \<Rightarrow>
                                 d\<lparr>sessions :=
                                      update_first
                                        (\<lambda>x. session_id x = s \<and> s_user_id x = u_id current_user)
                                        (revoke_session now) (sessions d),
                                    refresh_tokens :=
                                      map (\<lambda>r. if rt_session_id r = s_id session
                                                then revoke_token now r else r)
                                        (refresh_tokens d)\<rparr>))
         in (Inr ''Logged out successfully'',
             log_audit_event (Some (u_id current_user)) ''logout'' True None sid d1))"

definition logout_user ::
    "datetime \<Rightarrow> user \<Rightarrow> http_request \<Rightarrow> db \<Rightarrow> (exn + string) \<times> db" where
  "logout_user now current_user http d =
    (case logout_user_body now current_user http d of
       (Inl e, d') \<Rightarrow> (Inl (HTTPException 500 ''Logout service temporarily unavailable''), d')
     | (Inr message, d') \<Rightarrow> (Inr message, d'))"


lemma hashlib_not_imported: "resolve_global ''hashlib'' = Inl (NameError ''hashlib'')"
  by (simp add: resolve_global_def auth_module_names_def)

lemma refresh_body_cases:
  "refresh_access_token_body svc fr now tok http d
     = (Inl (SecurityException ''Invalid token''), d) \<or>
   refresh_access_token_body svc fr now tok http d
     = (Inl (SecurityException ''Token verification failed''), d) \<or>
   refresh_access_token_body svc fr now tok http d
     = (Inl (HTTPException 401 ''Invalid refresh token payload''), d) \<or>
   refresh_access_token_body svc fr now tok http d = (Inl (NameError ''hashlib''), d)"
proof (cases "verify_token (secret_key svc) now tok ''refresh''")
  case (Inl e)
  with verify_token_uniform [of "secret_key svc" now tok "''refresh''"] show ?thesis
    by (auto simp: refresh_access_token_body_def)
next
  case (Inr payload)
  then show ?thesis
    by (simp add: refresh_access_token_body_def hashlib_not_imported
          split: option.splits)
qed

text \<open>
  C3. api/auth.py does not import \<open>hashlib\<close>. A call of \<open>refresh_access_token\<close> whose
  token passes \<open>verify_token\<close> and carries a subject, a session and a family raises
  \<open>NameError\<close> at the hash lookup, and the last handler answers 500 "Token refresh
  service temporarily unavailable". No call, whatever its input, returns a token
  response, and none changes the database.
\<close>

theorem refresh_never_reaches_rotation:
  "(verify_token (secret_key svc) now tok ''refresh'' = Inr payload \<and>
    truthy (c_sub payload) \<and> truthy (c_session_id payload) \<and> truthy (c_family_id payload)
    \<longrightarrow> refresh_access_token_body svc fr now tok http d = (Inl (NameError ''hashlib''), d) \<and>
        refresh_access_token svc fr now tok http d
          = (Inl (HTTPException 500 ''Token refresh service temporarily unavailable''), d))
   \<and> (\<forall>response. fst (refresh_access_token svc fr now tok http d) \<noteq> Inr response)
   \<and> snd (refresh_access_token svc fr now tok http d) = d
   \<and> ''hashlib'' \<notin> set auth_module_names"
proof -
  have reach: "refresh_access_token_body svc fr now tok http d = (Inl (NameError ''hashlib''), d)"
    if "verify_token (secret_key svc) now tok ''refresh'' = Inr payload"
      and "truthy (c_sub payload)" "truthy (c_session_id payload)" "truthy (c_family_id payload)"
    using that
    by (auto simp: refresh_access_token_body_def hashlib_not_imported truthy_def
          split: option.splits)
  have conv: "refresh_access_token svc fr now tok http d
          = (Inl (HTTPException 500 ''Token refresh service temporarily unavailable''), d)"
    if "refresh_access_token_body svc fr now tok http d = (Inl (NameError ''hashlib''), d)"
    using that by (simp add: refresh_access_token_def)
  have never: "fst (refresh_access_token svc fr now tok http d) \<noteq> Inr response" for response
    using refresh_body_cases [of svc fr now tok http d]
    by (auto simp: refresh_access_token_def)
  have same: "snd (refresh_access_token svc fr now tok http d) = d"
    using refresh_body_cases [of svc fr now tok http d]
    by (auto simp: refresh_access_token_def)
  have imp: "''hashlib'' \<notin> set auth_module_names"
    by (simp add: auth_module_names_def)
  from reach conv never same imp show ?thesis
    by blast
qed

text \<open>The claims of a refresh token as \<open>create_refresh_token\<close> writes them.\<close>

definition demo_refresh_claims :: claims where
  "demo_refresh_claims =
    \<lparr>c_sub = Some ''user-1'', c_role = None, c_session_id = Some ''sid-1'', c_email = None,
     c_family_id = Some ''fam-1'', c_exp = Some 1700090000, c_iat = Some 1700000000,
     c_nbf = None, c_iss = Some ''makko-intelligence-auth'', c_aud = Some ''tumataxi-app'',
     c_jti = Some ''jti-r1'', c_token_type = Some ''refresh''\<rparr>"

theorem refresh_never_reaches_rotation_witness:
  "refresh_access_token_body demo_services demo_fresh 1700000001000000
      (Jwt ''service-secret'' demo_refresh_claims) demo_http demo_db
     = (Inl (NameError ''hashlib''), demo_db)
   \<and> refresh_access_token demo_services demo_fresh 1700000001000000
      (Jwt ''service-secret'' demo_refresh_claims) demo_http demo_db
     = (Inl (HTTPException 500 ''Token refresh service temporarily unavailable''), demo_db)"
proof -
  have v: "verify_token (secret_key demo_services) 1700000001000000
             (Jwt ''service-secret'' demo_refresh_claims) ''refresh'' = Inr demo_refresh_claims"
    by (simp add: verify_token_accepts_iff demo_services_def demo_refresh_claims_def expired_def
          issued_in_future_def not_yet_valid_def audience_mismatch_def issuer_mismatch_def
          get_or_0_def)
  have t: "truthy (c_sub demo_refresh_claims)" "truthy (c_session_id demo_refresh_claims)"
    "truthy (c_family_id demo_refresh_claims)"
    by (simp_all add: truthy_def demo_refresh_claims_def)
  show ?thesis
    using v t
      refresh_never_reaches_rotation [of demo_services 1700000001000000
        "Jwt ''service-secret'' demo_refresh_claims" demo_refresh_claims demo_fresh demo_http
        demo_db]
    by blast
qed

text \<open>
  The database after one successful login, the refresh token that login returned, and
  the record it stored for it.
\<close>

definition after_login :: db where
  "after_login =
     snd (login_user demo_services demo_fresh 1700000000000000 good_login demo_http demo_db)"



definition issued_refresh_token :: token where
  "issued_refresh_token =
    Jwt ''service-secret''
      \<lparr>c_sub = Some ''user-1'', c_role = None, c_session_id = Some ''sid-9'', c_email = None,
       c_family_id = Some ''fam-9'', c_exp = Some 1702592000, c_iat = Some 1700000000,
       c_nbf = None, c_iss = Some ''makko-intelligence-auth'', c_aud = Some ''tumataxi-app'',
       c_jti = Some ''jti-r9'', c_token_type = Some ''refresh''\<rparr>"

definition issued_record :: refresh_token where
  "issued_record =
    \<lparr>rt_user_id = ''user-1'', rt_session_id = ''uuid-9'', token_hash = ''sha-jti-r9'',
     token_family = ''fam-9'', is_revoked = False, is_used = False,
     rt_created_at = 1700000000000000, rt_expires_at = 1702592000000000, used_at = None,
     revoked_at = None, rt_ip_address = ''203.0.113.7''\<rparr>"

lemmas demo_defs =
  demo_db_def by_email_def alice_def good_login_def demo_services_def demo_http_def
  demo_fresh_def

lemma demo_login_body:
  "login_user_body demo_services demo_fresh 1700000000000000 good_login demo_http demo_db
     = (Inr \<lparr>access_token =
                create_access_token demo_services 1700000000000000 ''jti-a9''
                  (no_claims\<lparr>c_sub := Some ''user-1'', c_role := Some ''passenger'',
                     c_session_id := Some ''sid-9'', c_email := Some ''alice@example.com''\<rparr>)
                  None,
              refresh_token = issued_refresh_token, expires_in = 900\<rparr>,
        \<lparr>users = [register_success 1700000000000000 ''203.0.113.7'' alice],
         sessions =
           [insert_session 1700000000000000 ''uuid-9''
              \<lparr>d_user_id = ''user-1'', d_session_token = ''tok-9'', d_session_id = ''sid-9'',
               d_user_agent = ''Mozilla/5.0'', d_ip_address = ''203.0.113.7'',
               d_country_code = Some ''US'', d_expires_at = 1700007200000000,
               d_is_suspicious = None, d_risk_score = None\<rparr>],
         refresh_tokens = [issued_record], security_events = [],
         audit_logs =
           [\<lparr>al_user_id = Some ''user-1'', al_session_id = Some ''sid-9'',
             al_action = ''login'', al_success = True, al_error_message = None\<rparr>]\<rparr>)"
  by (simp add: login_user_body_def demo_defs is_locked_def verify_password_def
        user_is_active_def create_user_session_def detect_suspicious_session_def
        active_indices_def MAX_CONCURRENT_SESSIONS_def Let_def register_success_def
        get_geo_location_def insert_session_def create_refresh_token_def
        issued_refresh_token_def issued_record_def no_claims_def log_audit_event_def
        timedelta_days_def timedelta_minutes_def numeric_date_def SESSION_TIMEOUT_MINUTES_def
        REFRESH_TOKEN_EXPIRE_DAYS_def ACCESS_TOKEN_EXPIRE_MINUTES_def)

lemma after_login_tables:
  "refresh_tokens after_login = [issued_record]"
  "security_events after_login = []"
  "users after_login = [register_success 1700000000000000 ''203.0.113.7'' alice]"
  by (simp_all add: after_login_def login_user_def demo_login_body)

lemma issued_token_verifies:
  "verify_token ''service-secret'' 1700000600000000 issued_refresh_token ''refresh''
     = Inr \<lparr>c_sub = Some ''user-1'', c_role = None, c_session_id = Some ''sid-9'',
            c_email = None, c_family_id = Some ''fam-9'', c_exp = Some 1702592000,
            c_iat = Some 1700000000, c_nbf = None, c_iss = Some ''makko-intelligence-auth'',
            c_aud = Some ''tumataxi-app'', c_jti = Some ''jti-r9'',
            c_token_type = Some ''refresh''\<rparr>"
  by (simp add: verify_token_accepts_iff issued_refresh_token_def expired_def
        issued_in_future_def not_yet_valid_def audience_mismatch_def issuer_mismatch_def
        get_or_0_def)

text \<open>
  C1 fails on the code. The refresh token that a login has just issued has a valid
  record, stored under its hash; presenting it ten minutes later, for the first time,
  does not rotate it: the call answers 500 and the database is as before, the record
  unused and without successor.
\<close>

theorem first_rotation_answers_500:
  "(\<exists>response. login_user demo_services demo_fresh 1700000000000000 good_login demo_http demo_db
        = (Inr response, after_login) \<and> refresh_token response = issued_refresh_token)
   \<and> refresh_tokens after_login = [issued_record]
   \<and> token_hash issued_record = sha256_hex demo_services issued_refresh_token
   \<and> is_valid 1700000600000000 issued_record
   \<and> refresh_access_token demo_services demo_fresh 1700000600000000 issued_refresh_token
        demo_http after_login
      = (Inl (HTTPException 500 ''Token refresh service temporarily unavailable''), after_login)"
proof -
  have a: "\<exists>response. login_user demo_services demo_fresh 1700000000000000 good_login demo_http
        demo_db = (Inr response, after_login) \<and> refresh_token response = issued_refresh_token"
    by (simp add: after_login_def login_user_def demo_login_body)
  have b: "token_hash issued_record = sha256_hex demo_services issued_refresh_token"
    by (simp add: issued_record_def demo_services_def issued_refresh_token_def)
  have c: "is_valid 1700000600000000 issued_record"
    by (simp add: is_valid_def issued_record_def)
  have d: "refresh_access_token_body demo_services demo_fresh 1700000600000000
        issued_refresh_token demo_http after_login = (Inl (NameError ''hashlib''), after_login)"
    using issued_token_verifies
    by (simp add: refresh_access_token_body_def hashlib_not_imported demo_services_def)
  from a b c d after_login_tables(1) show ?thesis
    by (simp add: refresh_access_token_def)
qed




text \<open>
  A database in which the issued token has been used and has a successor, next to a
  record of another family.
\<close>

definition reused_db :: db where
  "reused_db =
    after_login\<lparr>refresh_tokens :=
      [mark_used 1700000300000000 issued_record,
       issued_record\<lparr>token_hash := ''sha-jti-r10'', rt_created_at := 1700000300000000\<rparr>,
       issued_record\<lparr>token_hash := ''sha-jti-r3'', token_family := ''fam-3''\<rparr>]\<rparr>"


section \<open>Refresh-token flags under the operations\<close>

text \<open>
  The operations of the engine that write refresh-token records: a login, a call of the
  refresh endpoint, the part of the refresh endpoint from the lookup on (the rotation and
  the family revocation, lines 632 to 729), and a logout. A record keeps its position in
  the table, since no operation deletes a row.
\<close>

datatype operation =
    Login login_request http_request fresh
  | Refresh token http_request fresh
  | Rotation string string string string http_request fresh
  | Logout user http_request

definition apply_operation :: "services \<Rightarrow> datetime \<Rightarrow> operation \<Rightarrow> db \<Rightarrow> db" where
  "apply_operation svc now op d =
    (case op of
       Login request http fr \<Rightarrow> snd (login_user svc fr now request http d)
     | Refresh tok http fr \<Rightarrow> snd (refresh_access_token svc fr now tok http d)
     | Rotation user_id sess_id family_id th http fr \<Rightarrow>
         snd (refresh_after_hash svc fr now user_id sess_id family_id th http d)
     | Logout current_user http \<Rightarrow> snd (logout_user now current_user http d))"

fun run_operations :: "services \<Rightarrow> (datetime \<times> operation) list \<Rightarrow> db \<Rightarrow> db" where
  "run_operations svc [] d = d"
| "run_operations svc ((now, op) # rest) d = run_operations svc rest (apply_operation svc now op d)"

text \<open>
  \<open>flags_kept r r'\<close>: the later state \<open>r'\<close> of a record is the same token with every
  flag that was set still set. \<open>tokens_kept\<close>: every record of the earlier table is
  still there, at its position, with its flags kept.
\<close>

definition flags_kept :: "refresh_token \<Rightarrow> refresh_token \<Rightarrow> bool" where
  "flags_kept r r' =
    (token_hash r' = token_hash r \<and> token_family r' = token_family r \<and>
     (is_used r \<longrightarrow> is_used r') \<and> (is_revoked r \<longrightarrow> is_revoked r'))"

definition tokens_kept :: "refresh_token list \<Rightarrow> refresh_token list \<Rightarrow> bool" where
  "tokens_kept ts ts' =
    (length ts \<le> length ts' \<and> (\<forall>i < length ts. flags_kept (ts ! i) (ts' ! i)))"

lemma flags_kept_refl: "flags_kept r r"
  by (simp add: flags_kept_def)

lemma flags_kept_revoke: "flags_kept r (revoke_token now r)"
  by (simp add: flags_kept_def revoke_token_def)

lemma flags_kept_used: "flags_kept r (mark_used now r)"
  by (simp add: flags_kept_def mark_used_def)

lemma tokens_kept_refl: "tokens_kept ts ts"
  by (simp add: tokens_kept_def flags_kept_refl)

lemma tokens_kept_trans: "tokens_kept a b \<Longrightarrow> tokens_kept b c \<Longrightarrow> tokens_kept a c"
  unfolding tokens_kept_def flags_kept_def by (auto; metis less_le_trans)

lemma tokens_kept_all2: "list_all2 flags_kept ts ts1 \<Longrightarrow> tokens_kept ts (ts1 @ ext)"
  by (auto simp: tokens_kept_def list_all2_conv_all_nth nth_append)

lemma all2_map: "(\<And>r. flags_kept r (f r)) \<Longrightarrow> list_all2 flags_kept ts (map f ts)"
  by (simp add: list_all2_conv_all_nth)

lemma all2_update_first:
  "(\<And>r. flags_kept r (f r)) \<Longrightarrow> list_all2 flags_kept ts (update_first P f ts)"
  by (induction ts) (auto simp: flags_kept_refl list_all2_refl)

lemma tokens_kept_map: "(\<And>r. flags_kept r (f r)) \<Longrightarrow> tokens_kept ts (map f ts)"
  using tokens_kept_all2 [OF all2_map, of f ts "[]"] by simp

lemma detect_suspicious_session_tokens:
  "detect_suspicious_session now usr s d = Inr (s', d') \<Longrightarrow> refresh_tokens d' = refresh_tokens d"
  by (auto simp: detect_suspicious_session_def Let_def split: if_splits option.splits list.splits)

lemma create_user_session_tokens:
  "create_user_session fr now usr http rm d = Inr (row, d') \<Longrightarrow>
     refresh_tokens d' = refresh_tokens d"
  by (auto simp: create_user_session_def Let_def split: sum.splits
        dest: detect_suspicious_session_tokens)

lemma login_tokens:
  "tokens_kept (refresh_tokens d) (refresh_tokens (snd (login_user svc fr now rq http d)))"
proof -
  have body: "\<exists>ext. refresh_tokens (snd (login_user_body svc fr now rq http d))
                  = refresh_tokens d @ ext"
    by (auto simp: login_user_body_def Let_def log_audit_event_def
          split: option.splits sum.splits dest: create_user_session_tokens)
  have "snd (login_user svc fr now rq http d) = snd (login_user_body svc fr now rq http d)"
    by (simp add: login_user_def split: prod.splits sum.splits exn.splits)
  with body obtain ext where
    "refresh_tokens (snd (login_user svc fr now rq http d)) = refresh_tokens d @ ext"
    by auto
  then show ?thesis
    using tokens_kept_all2 [of "refresh_tokens d" "refresh_tokens d" ext]
    by (simp add: list_all2_refl flags_kept_refl)
qed

lemma refresh_tokens_unchanged:
  "snd (refresh_access_token svc fr now tok http d) = d"
  using refresh_body_cases [of svc fr now tok http d]
  by (auto simp: refresh_access_token_def)

lemma tokens_kept_revoke_some:
  "tokens_kept ts (map (\<lambda>r. if Q r then revoke_token now r else r) ts)"
  by (rule tokens_kept_map) (simp add: flags_kept_refl flags_kept_revoke)

lemma tokens_kept_used_append:
  "tokens_kept ts (update_first P (mark_used now) ts @ ext)"
  by (rule tokens_kept_all2, rule all2_update_first) (rule flags_kept_used)

lemma rotation_tokens:
  "tokens_kept (refresh_tokens d)
     (refresh_tokens (snd (refresh_after_hash svc fr now uid sid fam th http d)))"
  by (simp add: refresh_after_hash_def Let_def tokens_kept_refl tokens_kept_revoke_some
        tokens_kept_used_append split: option.splits)

lemma logout_tokens:
  "tokens_kept (refresh_tokens d) (refresh_tokens (snd (logout_user now usr http d)))"
  by (simp add: logout_user_def logout_user_body_def Let_def log_audit_event_def
        tokens_kept_refl tokens_kept_revoke_some split: option.splits)

lemma apply_operation_tokens:
  "tokens_kept (refresh_tokens d) (refresh_tokens (apply_operation svc now op d))"
  by (cases op)
     (simp_all add: apply_operation_def login_tokens refresh_tokens_unchanged tokens_kept_refl
        rotation_tokens logout_tokens)

lemma run_operations_tokens:
  "tokens_kept (refresh_tokens d) (refresh_tokens (run_operations svc ops d))"
proof (induction ops arbitrary: d)
  case Nil
  then show ?case by (simp add: tokens_kept_refl)
next
  case (Cons a ops)
  obtain now op where a: "a = (now, op)" by (cases a)
  show ?case
    using tokens_kept_trans [OF apply_operation_tokens [of d svc now op]
        Cons.IH [of "apply_operation svc now op d"]]
    by (simp add: a)
qed

text \<open>
  C9. Under any sequence of logins, refresh calls, rotations and family revocations, and
  logouts, at any times, a refresh-token record stays in the table, \<open>is_used\<close> stays
  true once true and \<open>is_revoked\<close> stays true once true; so a record that is used or
  revoked fails \<open>is_valid\<close> at every time after every such sequence.
\<close>

theorem refresh_invalidity_monotone:
  "i < length (refresh_tokens d) \<longrightarrow>
     i < length (refresh_tokens (run_operations svc ops d)) \<and>
     token_hash (refresh_tokens (run_operations svc ops d) ! i)
       = token_hash (refresh_tokens d ! i) \<and>
     (is_used (refresh_tokens d ! i)
        \<longrightarrow> is_used (refresh_tokens (run_operations svc ops d) ! i)) \<and>
     (is_revoked (refresh_tokens d ! i)
        \<longrightarrow> is_revoked (refresh_tokens (run_operations svc ops d) ! i)) \<and>
     (is_used (refresh_tokens d ! i) \<or> is_revoked (refresh_tokens d ! i)
        \<longrightarrow> (\<forall>t. \<not> is_valid t (refresh_tokens (run_operations svc ops d) ! i)))"
  using run_operations_tokens [of d svc ops]
  by (auto simp: tokens_kept_def flags_kept_def is_valid_def)


text \<open>
  A reuse of the successor's hash, which revokes the family, then a logout, a call of
  the refresh endpoint and a new login.
\<close>

definition demo_operations :: "(datetime \<times> operation) list" where
  "demo_operations =
    [(1700000600000000,
        Rotation ''user-1'' ''uuid-9'' ''fam-9'' ''sha-jti-r10'' demo_http demo_fresh),
     (1700000700000000, Logout alice (demo_http\<lparr>bearer := Some issued_refresh_token\<rparr>)),
     (1700000800000000, Refresh issued_refresh_token demo_http demo_fresh),
     (1700000900000000, Login good_login demo_http demo_fresh)]"

theorem refresh_invalidity_monotone_witness:
  "is_used (refresh_tokens reused_db ! 0)
   \<and> is_used (refresh_tokens (run_operations demo_services demo_operations reused_db) ! 0)
   \<and> \<not> is_valid 1700001000000000
        (refresh_tokens (run_operations demo_services demo_operations reused_db) ! 0)"
proof -
  have l: "0 < length (refresh_tokens reused_db)"
    by (simp add: reused_db_def)
  have u: "is_used (refresh_tokens reused_db ! 0)"
    by (simp add: reused_db_def mark_used_def)
  from l u refresh_invalidity_monotone [of 0 reused_db demo_services demo_operations]
  show ?thesis
    by blast
qed

end
